theory Spec2Isabelle
  imports Main
begin

section \<open>Python strings\<close>

text \<open>
  A Python \<open>str\<close> is a sequence of Unicode code points; it is modelled as a list of
  natural numbers.  \<open>bytes\<close> (the body of an uploaded file) is a list of 8-bit
  characters.  The literals of \<open>main.py\<close> are ASCII, so \<open>lit\<close> maps each character
  of an Isabelle string literal to its code point.
\<close>

type_synonym str = "nat list"
type_synonym bytes = "char list"

definition lit :: "string \<Rightarrow> str" where
  "lit s = map of_char s"

text \<open>The line feed \<open>\n\<close> and the space character.\<close>

definition NL :: str where
  "NL = [10]"

definition SPACE :: str where
  "SPACE = [32]"

text \<open>
  \<open>str.strip()\<close>, \<open>str.isspace()\<close> and the class \<open>\s\<close> of a \<open>str\<close> pattern in \<open>re\<close> all
  use the same test on a code point (CPython's \<open>Py_UNICODE_ISSPACE\<close>).
\<close>

definition isspace :: "nat \<Rightarrow> bool" where
  "isspace c = (c \<in> set [0x09, 0x0A, 0x0B, 0x0C, 0x0D, 0x1C, 0x1D, 0x1E, 0x1F, 0x20,
                         0x85, 0xA0, 0x1680, 0x2028, 0x2029, 0x202F, 0x205F, 0x3000]
               \<or> (0x2000 \<le> c \<and> c \<le> 0x200A))"

definition lstrip :: "str \<Rightarrow> str" where
  "lstrip s = dropWhile isspace s"

definition rstrip :: "str \<Rightarrow> str" where
  "rstrip s = rev (dropWhile isspace (rev s))"

text \<open>\<open>s.strip()\<close>: the slice between the first and the last non-whitespace character.\<close>

definition strip :: "str \<Rightarrow> str" where
  "strip s = rstrip (lstrip s)"

text \<open>\<open>s.endswith(suffix)\<close>\<close>

definition endswith :: "str \<Rightarrow> str \<Rightarrow> bool" where
  "endswith s suffix = (take (length suffix) (rev s) = rev suffix)"

text \<open>\<open>sep.join(xs)\<close>\<close>

fun join :: "str \<Rightarrow> str list \<Rightarrow> str" where
  "join sep [] = []"
| "join sep [x] = x"
| "join sep (x # y # ys) = x @ sep @ join sep (y # ys)"

text \<open>
  The pattern \<open>\s{2,}\<close> tried at the start of a string: the quantifier is greedy and
  nothing follows it, so it takes the whole leading run of whitespace, and the match
  succeeds when that run has at least two characters.  The result is the length of the
  match.
\<close>

definition match_ws2 :: "str \<Rightarrow> nat option" where
  "match_ws2 s = (let n = length (takeWhile isspace s) in if 2 \<le> n then Some n else None)"

text \<open>
  \<open>re.sub(r"\s{2,}", repl, s)\<close>: the string is scanned from the left; where the
  pattern matches, the match is replaced and the scan goes on behind it, elsewhere the
  character is kept.
\<close>

function re_sub_ws2 :: "str \<Rightarrow> str \<Rightarrow> str" where
  "re_sub_ws2 repl [] = []"
| "re_sub_ws2 repl (c # cs) =
     (case match_ws2 (c # cs) of
        Some n \<Rightarrow> repl @ re_sub_ws2 repl (drop n (c # cs))
      | None \<Rightarrow> c # re_sub_ws2 repl cs)"
  by pat_completeness auto
termination
  by (relation "measure (\<lambda>(repl, s). length s)")
     (auto simp: match_ws2_def Let_def split: if_splits)

text \<open>A run of two or more consecutive whitespace characters somewhere in the string.\<close>

fun has_ws_run :: "str \<Rightarrow> bool" where
  "has_ws_run (a # b # cs) = ((isspace a \<and> isspace b) \<or> has_ws_run (b # cs))"
| "has_ws_run _ = False"


section \<open>The libraries the service calls\<close>

text \<open>
  \<open>main.py\<close> only sequences calls into its libraries (the PDF loader, the text
  splitter, the embedding model with the FAISS index, the tokenizer and the generation
  model).  What those calls compute is not code of the repository: each one is a field of
  the environment \<open>env\<close>, a function of its arguments, and the theorems hold for every
  environment.  So is the operating system's answer to \<open>open(path, "wb")\<close>.  Exceptions
  raised inside a library call are outside the model, and so is the interleaving of
  concurrent requests: requests are handled one after the other.
\<close>

type_synonym token = int

text \<open>The exceptions that reach the framework unhandled.\<close>

datatype py_error = TypeError | FileNotFoundError | OSError

record document =
  page_content :: str
  metadata :: "(str \<times> str) list"

text \<open>The tokenizer's output: one row of \<open>input_ids\<close> and its \<open>attention_mask\<close>.\<close>

record encoded =
  input_ids :: "token list"
  attention_mask :: "token list"

text \<open>
  A tokenizer object: \<open>tok_call prompt truncation max_length\<close> is
  \<open>tokenizer(prompt, return_tensors="pt", truncation=..., max_length=...)\<close> and
  \<open>tok_decode ids skip_special_tokens\<close> is \<open>tokenizer.decode(ids, skip_special_tokens=...)\<close>.
\<close>

record tokenizer =
  tok_call :: "str \<Rightarrow> bool \<Rightarrow> nat \<Rightarrow> encoded"
  tok_decode :: "token list \<Rightarrow> bool \<Rightarrow> str"
  pad_token_id :: "token option"
  eos_token_id :: "token option"

datatype device = CPU | CUDA

text \<open>
  A generation model: \<open>generate enc max_new_tokens pad_token_id\<close> is row 0 of
  \<open>model.generate\<close> called with the fields of \<open>enc\<close>, \<open>max_new_tokens\<close>,
  \<open>do_sample=False\<close>, \<open>temperature=0.0\<close> and \<open>pad_token_id\<close>; the prompt is a single
  string, so the batch has that one row, and without sampling the row is a function of the
  arguments.
\<close>

record model =
  generate :: "encoded \<Rightarrow> nat \<Rightarrow> token option \<Rightarrow> token list"
  model_device :: device
  training :: bool

record 'ix env =
  getenv_HF_GENERATION_MODEL :: "str option"
  AutoConfig_is_encoder_decoder :: "str \<Rightarrow> bool option"
  AutoTokenizer_from_pretrained :: "str \<Rightarrow> tokenizer"
  AutoModelForSeq2SeqLM_from_pretrained :: "str \<Rightarrow> model"
  AutoModelForCausalLM_from_pretrained :: "str \<Rightarrow> model"
  cuda_is_available :: bool
  open_wb :: "str \<Rightarrow> py_error option"
  PyPDFLoader_load :: "str \<Rightarrow> bytes \<Rightarrow> document list"
  split_documents :: "nat \<Rightarrow> nat \<Rightarrow> document list \<Rightarrow> document list"
  FAISS_from_documents :: "document list \<Rightarrow> str \<Rightarrow> 'ix"
  similarity_search :: "'ix \<Rightarrow> str \<Rightarrow> nat \<Rightarrow> document list"

text \<open>
  \<open>open_wb path\<close> is what \<open>open(path, "wb")\<close> raises, \<open>None\<close> when the file is opened:
  \<open>FileNotFoundError\<close> when a directory of the path does not exist (a file name such as
  \<open>x/a.pdf\<close> in a working directory without \<open>temp_x\<close>), another \<open>OSError\<close> otherwise.
  The service creates no directory, so whether a path can be opened does not change while
  it runs.
  \<open>AutoConfig_is_encoder_decoder name\<close> is the attribute \<open>is_encoder_decoder\<close> of
  \<open>AutoConfig.from_pretrained(name)\<close>, \<open>None\<close> when the configuration has no such
  attribute.  \<open>PyPDFLoader_load path content\<close> is \<open>PyPDFLoader(path).load()\<close> for a file
  with that content; \<open>split_documents chunk_size chunk_overlap docs\<close> is the
  \<open>RecursiveCharacterTextSplitter\<close>; \<open>FAISS_from_documents chunks embedding\<close> builds an
  index and \<open>similarity_search index query k\<close> queries it.
\<close>

section \<open>Global state\<close>

text \<open>
  The module's globals, and the files of the working directory.  \<open>generate_calls\<close> is
  not a variable of the program: it records the arguments of every \<open>model.generate\<close>
  call, oldest first, so that "the model is called" and "the model is not called" can be
  stated.
\<close>

record 'ix state =
  vectorstore :: "'ix option"
  generation_tokenizer :: "tokenizer option"
  generation_model :: "model option"
  generation_is_encoder_decoder :: bool
  files :: "str \<rightharpoonup> bytes"
  generate_calls :: "(encoded \<times> nat \<times> token option) list"

definition HF_GENERATION_MODEL :: "'ix env \<Rightarrow> str" where
  "HF_GENERATION_MODEL e =
     (case getenv_HF_GENERATION_MODEL e of
        Some v \<Rightarrow> v
      | None \<Rightarrow> lit ''google/flan-t5-base'')"

definition embedding_model :: str where
  "embedding_model = lit ''sentence-transformers/all-MiniLM-L6-v2''"

text \<open>
  The state when the module has been imported: the globals have their initial values;
  the files are those the previous runs left behind.
\<close>

definition startup :: "(str \<rightharpoonup> bytes) \<Rightarrow> 'ix state" where
  "startup fs =
     \<lparr> vectorstore = None,
       generation_tokenizer = None,
       generation_model = None,
       generation_is_encoder_decoder = False,
       files = fs,
       generate_calls = [] \<rparr>"

section \<open>Loading the generation model\<close>

text \<open>\<open>bool(getattr(config, "is_encoder_decoder", False))\<close>\<close>

definition config_flag :: "bool option \<Rightarrow> bool" where
  "config_flag a = (case a of Some b \<Rightarrow> b | None \<Rightarrow> False)"

definition load_generation_model ::
  "'ix env \<Rightarrow> 'ix state \<Rightarrow> (tokenizer option \<times> model \<times> bool) \<times> 'ix state" where
  "load_generation_model e st =
     (case generation_model st of
        Some m \<Rightarrow> ((generation_tokenizer st, m, generation_is_encoder_decoder st), st)
      | None \<Rightarrow>
          (let name = HF_GENERATION_MODEL e;
               flag = config_flag (AutoConfig_is_encoder_decoder e name);
               tok = AutoTokenizer_from_pretrained e name;
               m0 = (if flag then AutoModelForSeq2SeqLM_from_pretrained e name
                     else AutoModelForCausalLM_from_pretrained e name);
               m1 = (if cuda_is_available e then m0\<lparr>model_device := CUDA\<rparr> else m0);
               m2 = m1\<lparr>training := False\<rparr>
           in ((Some tok, m2, flag),
               st\<lparr>generation_is_encoder_decoder := flag,
                  generation_tokenizer := Some tok,
                  generation_model := Some m2\<rparr>)))"

section \<open>Text generation\<close>

text \<open>\<open>tokenizer.pad_token_id or tokenizer.eos_token_id\<close>: \<open>None\<close> and \<open>0\<close> are falsy.\<close>

definition pad_or_eos :: "tokenizer \<Rightarrow> token option" where
  "pad_or_eos t =
     (case pad_token_id t of
        Some p \<Rightarrow> (if p \<noteq> 0 then Some p else eos_token_id t)
      | None \<Rightarrow> eos_token_id t)"

text \<open>
  Calling the tokenizer when the global is still \<open>None\<close> raises \<open>TypeError\<close>; the
  arguments of the \<open>generate\<close> call are appended to \<open>generate_calls\<close>.
\<close>

definition generate_response ::
  "'ix env \<Rightarrow> 'ix state \<Rightarrow> str \<Rightarrow> nat \<Rightarrow> (py_error + str) \<times> 'ix state" where
  "generate_response e st prompt max_new_tokens =
     (case load_generation_model e st of
        ((None, m, is_encoder_decoder), st1) \<Rightarrow> (Inl TypeError, st1)
      | ((Some t, m, is_encoder_decoder), st1) \<Rightarrow>
          (let enc = tok_call t prompt True 2048;
               pad = pad_or_eos t;
               generated_ids = generate m enc max_new_tokens pad;
               st2 = st1\<lparr>generate_calls := generate_calls st1 @ [(enc, max_new_tokens, pad)]\<rparr>;
               text = (if is_encoder_decoder then tok_decode t generated_ids True
                       else (let input_len = length (input_ids enc);
                                 new_tokens = drop input_len generated_ids
                             in tok_decode t new_tokens True))
           in (Inr (strip text), st2)))"

section \<open>Requests and responses\<close>

text \<open>
  What an endpoint gives back: the dictionary it returns (sent with status 200), an
  \<open>HTTPException\<close> with its status code and detail, the 422 of a request the framework
  rejects, or an exception nobody handles (sent as status 500).
\<close>

datatype response =
    Return "(str \<times> str) list"
  | HTTPException nat str
  | RequestValidationError
  | Unhandled py_error

fun status_code :: "response \<Rightarrow> nat" where
  "status_code (Return body) = 200"
| "status_code (HTTPException code detail) = code"
| "status_code RequestValidationError = 422"
| "status_code (Unhandled x) = 500"

text \<open>
  \<open>AskRequest\<close>: the field constraints \<open>min_length=1, max_length=2000\<close>, then the
  validator, which rejects a question of whitespace only and stores the stripped one.
\<close>

definition AskRequest :: "str \<Rightarrow> str option" where
  "AskRequest v =
     (if length v < 1 \<or> 2000 < length v then None
      else if strip v = [] then None
      else Some (strip v))"

section \<open>The upload endpoint\<close>

text \<open>
  The file is opened for writing before anything else is done with it: when \<open>open\<close>
  raises, nothing is written, the loader does not run and the index is not touched.  The
  loader then reads the file from its path.
\<close>

definition upload_pdf :: "'ix env \<Rightarrow> 'ix state \<Rightarrow> str \<Rightarrow> bytes \<Rightarrow> response \<times> 'ix state" where
  "upload_pdf e st filename content =
     (if \<not> endswith filename (lit ''.pdf'')
      then (HTTPException 400 (lit ''Only PDF files are allowed.''), st)
      else
        (let file_location = lit ''temp_'' @ filename
         in case open_wb e file_location of
              Some err \<Rightarrow> (Unhandled err, st)
            | None \<Rightarrow>
                (let st1 = st\<lparr>files := (files st)(file_location \<mapsto> content)\<rparr>
                 in case files st1 file_location of
                      None \<Rightarrow> (Unhandled FileNotFoundError, st1)
                    | Some stored \<Rightarrow>
                        (let docs = PyPDFLoader_load e file_location stored;
                             chunks = split_documents e 800 150 docs
                         in if chunks = []
                            then (HTTPException 400 (lit ''No text found in PDF.''), st1)
                            else (Return [(lit ''doc_id'', filename)],
                                  st1\<lparr>vectorstore :=
                                        Some (FAISS_from_documents e chunks embedding_model)\<rparr>)))))"

section \<open>The ask endpoint\<close>

definition ask_prompt :: "str \<Rightarrow> str \<Rightarrow> str" where
  "ask_prompt context query =
     lit ''You are a helpful assistant answering ONLY from the context below.'' @ NL @ NL
     @ lit ''Context:'' @ NL @ context @ NL @ NL
     @ lit ''Question: '' @ query @ NL @ lit ''Answer:''"

definition ask_question :: "'ix env \<Rightarrow> 'ix state \<Rightarrow> str \<Rightarrow> response \<times> 'ix state" where
  "ask_question e st question =
     (case vectorstore st of
        None \<Rightarrow> (Return [(lit ''answer'', lit ''Please upload a PDF first.'')], st)
      | Some vs \<Rightarrow>
          (let query = strip question;
               docs = similarity_search e vs query 6
           in if docs = []
              then (Return [(lit ''answer'', lit ''Not found in document.'')], st)
              else
                (let context = join (NL @ NL) (map page_content docs);
                     prompt = ask_prompt context query
                 in case generate_response e st prompt 300 of
                      (Inl err, st1) \<Rightarrow> (Unhandled err, st1)
                    | (Inr answer, st1) \<Rightarrow>
                        (Return [(lit ''answer'', strip (re_sub_ws2 SPACE answer))], st1))))"

section \<open>The summarize endpoint\<close>

definition summarize_prompt :: "str \<Rightarrow> str" where
  "summarize_prompt context =
     lit ''Summarize the document in 6-8 concise bullet points.'' @ NL @ NL
     @ lit ''Context:'' @ NL @ context @ NL @ NL @ lit ''Summary:''"

definition summarize_pdf :: "'ix env \<Rightarrow> 'ix state \<Rightarrow> response \<times> 'ix state" where
  "summarize_pdf e st =
     (case vectorstore st of
        None \<Rightarrow> (Return [(lit ''summary'', lit ''Please upload a PDF first.'')], st)
      | Some vs \<Rightarrow>
          (let docs = similarity_search e vs (lit ''Summarize the document'') 8;
               context = join (NL @ NL) (map page_content docs);
               prompt = summarize_prompt context
           in case generate_response e st prompt 350 of
                (Inl err, st1) \<Rightarrow> (Unhandled err, st1)
              | (Inr summary, st1) \<Rightarrow> (Return [(lit ''summary'', summary)], st1)))"

section \<open>The service\<close>

datatype request = Upload str bytes | Ask str | Summarize

fun handle :: "'ix env \<Rightarrow> 'ix state \<Rightarrow> request \<Rightarrow> response \<times> 'ix state" where
  "handle e st (Upload filename content) = upload_pdf e st filename content"
| "handle e st (Ask question) =
     (case AskRequest question of
        None \<Rightarrow> (RequestValidationError, st)
      | Some q \<Rightarrow> ask_question e st q)"
| "handle e st Summarize = summarize_pdf e st"

text \<open>
  A run of the service on a list of requests: the responses in order, and the state
  after the last one.
\<close>

fun serve :: "'ix env \<Rightarrow> 'ix state \<Rightarrow> request list \<Rightarrow> response list \<times> 'ix state" where
  "serve e st [] = ([], st)"
| "serve e st (r # rs) =
     (case handle e st r of
        (resp, st1) \<Rightarrow> (case serve e st1 rs of (resps, st2) \<Rightarrow> (resp # resps, st2)))"

section \<open>Notions used in the statements\<close>

text \<open>
  The generation globals are consistent with the environment: when a model is loaded, so
  is a tokenizer, and the recorded flag is the one the configuration gives.  The state
  after start-up is such a state and every request keeps it one.
\<close>

definition globals_ok :: "'ix env \<Rightarrow> 'ix state \<Rightarrow> bool" where
  "globals_ok e st =
     (generation_model st = None \<or>
      (generation_tokenizer st \<noteq> None \<and>
       generation_is_encoder_decoder st
         = config_flag (AutoConfig_is_encoder_decoder e (HF_GENERATION_MODEL e))))"

text \<open>
  The files a list of requests leaves in the working directory, given which paths can be
  opened: each upload whose file name ends in \<open>.pdf\<close> and whose path can be opened stores
  the uploaded bytes under \<open>temp_\<close> followed by the name.
\<close>

definition written_by ::
  "(str \<Rightarrow> py_error option) \<Rightarrow> request list \<Rightarrow> (str \<rightharpoonup> bytes) \<Rightarrow> (str \<rightharpoonup> bytes)" where
  "written_by opens rs fs =
     fold (\<lambda>r f. case r of
                    Upload filename content \<Rightarrow>
                      (if endswith filename (lit ''.pdf'') \<and> opens (lit ''temp_'' @ filename) = None
                       then f(lit ''temp_'' @ filename \<mapsto> content) else f)
                  | _ \<Rightarrow> f) rs fs"

fun upload_succeeded :: "request \<times> response \<Rightarrow> bool" where
  "upload_succeeded (Upload filename content, resp) = (status_code resp = 200)"
| "upload_succeeded _ = False"

text \<open>
  The answer as the sentence "the generation model's output on that prompt is returned
  as the answer" describes it: retrieval, context, prompt and generation for every
  question, the output returned as it is.
\<close>

definition ask_as_claimed :: "'ix env \<Rightarrow> 'ix state \<Rightarrow> str \<Rightarrow> response" where
  "ask_as_claimed e st question =
     (case vectorstore st of
        None \<Rightarrow> Return [(lit ''answer'', lit ''Please upload a PDF first.'')]
      | Some vs \<Rightarrow>
          (let docs = similarity_search e vs (strip question) 6;
               context = join (NL @ NL) (map page_content docs);
               prompt = ask_prompt context (strip question)
           in case fst (generate_response e st prompt 300) of
                Inl err \<Rightarrow> Unhandled err
              | Inr out \<Rightarrow> Return [(lit ''answer'', out)]))"

section \<open>An example environment\<close>

text \<open>
  A small environment on which the theorems are instantiated: the tokenizer maps a
  code point to a token and back, the encoder-decoder model answers \<open>" Hi  \n! "\<close>, the
  causal model repeats its input and appends \<open>"OK"\<close>, the working directory has no
  subdirectory, the pages of a PDF are its bytes as text, separated by form feeds, and the
  index returns the chunks that share a code point with the query.
\<close>

fun example_pages :: "bytes \<Rightarrow> bytes list" where
  "example_pages [] = [[]]"
| "example_pages (c # cs) =
     (if c = CHR 0x0C then [] # example_pages cs
      else (case example_pages cs of
              [] \<Rightarrow> [[c]]
            | p # ps \<Rightarrow> (c # p) # ps))"

definition example_tokenizer :: tokenizer where
  "example_tokenizer =
     \<lparr> tok_call = (\<lambda>prompt truncation max_length.
          \<lparr> input_ids = map int (if truncation then take max_length prompt else prompt),
            attention_mask = map (\<lambda>c. 1) (if truncation then take max_length prompt else prompt) \<rparr>),
       tok_decode = (\<lambda>ids skip_special_tokens. map nat ids),
       pad_token_id = Some 0,
       eos_token_id = Some 1 \<rparr>"

definition example_seq2seq :: model where
  "example_seq2seq =
     \<lparr> generate = (\<lambda>enc max_new_tokens pad. take max_new_tokens [32, 72, 105, 32, 32, 10, 33, 32]),
       model_device = CPU,
       training = True \<rparr>"

definition example_causal :: model where
  "example_causal =
     \<lparr> generate = (\<lambda>enc max_new_tokens pad. input_ids enc @ take max_new_tokens [79, 75]),
       model_device = CPU,
       training = True \<rparr>"

definition example_env :: "bool \<Rightarrow> document list env" where
  "example_env seq2seq =
     \<lparr> getenv_HF_GENERATION_MODEL = None,
       AutoConfig_is_encoder_decoder = (\<lambda>name. if seq2seq then Some True else None),
       AutoTokenizer_from_pretrained = (\<lambda>name. example_tokenizer),
       AutoModelForSeq2SeqLM_from_pretrained = (\<lambda>name. example_seq2seq),
       AutoModelForCausalLM_from_pretrained = (\<lambda>name. example_causal),
       cuda_is_available = False,
       open_wb = (\<lambda>path. if 47 \<in> set path then Some FileNotFoundError else None),
       PyPDFLoader_load = (\<lambda>path content.
          map (\<lambda>p. \<lparr> page_content = map of_char p, metadata = [(lit ''source'', path)] \<rparr>)
            (filter (\<lambda>p. p \<noteq> []) (example_pages content))),
       split_documents = (\<lambda>chunk_size chunk_overlap docs. docs),
       FAISS_from_documents = (\<lambda>chunks embedding. chunks),
       similarity_search = (\<lambda>index query k.
          take k (filter (\<lambda>d. \<exists>c \<in> set query. c \<in> set (page_content d)) index)) \<rparr>"

text \<open>
  The same environment with an encoder-decoder model that returns its input followed by
  \<open>"OK"\<close>: all of it is decoded, so the text shows the prompt the model was given.
\<close>

definition echo_env :: "document list env" where
  "echo_env = (example_env True)\<lparr>AutoModelForSeq2SeqLM_from_pretrained := (\<lambda>name. example_causal)\<rparr>"

text \<open>The state after start-up and one upload of \<open>a.pdf\<close> with the given content.\<close>

definition example_state :: "bytes \<Rightarrow> document list state" where
  "example_state content =
     snd (upload_pdf (example_env True) (startup Map.empty) (lit ''a.pdf'') content)"


section \<open>Strings\<close>

text \<open>\<open>endswith\<close> is the suffix test.\<close>

lemma endswith_iff: "endswith s suffix \<longleftrightarrow> (\<exists>p. s = p @ suffix)"
proof
  assume "endswith s suffix"
  then have "rev s = rev suffix @ drop (length suffix) (rev s)"
    unfolding endswith_def by (metis append_take_drop_id)
  then have "s = rev (drop (length suffix) (rev s)) @ suffix"
    by (metis rev_append rev_rev_ident)
  then show "\<exists>p. s = p @ suffix" ..
next
  assume "\<exists>p. s = p @ suffix"
  then show "endswith s suffix" by (auto simp: endswith_def)
qed

text \<open>
  Runs of whitespace: \<open>strip\<close> creates none, the result of \<open>re_sub_ws2\<close> with a single
  space as replacement has none, and neither changes the characters that are not
  whitespace.
\<close>

lemma has_ws_run_Cons:
  "has_ws_run (a # s) = ((isspace a \<and> s \<noteq> [] \<and> isspace (hd s)) \<or> has_ws_run s)"
  by (cases s) auto

lemma has_ws_run_append:
  "has_ws_run (xs @ ys) =
     (has_ws_run xs \<or> has_ws_run ys \<or> (xs \<noteq> [] \<and> ys \<noteq> [] \<and> isspace (last xs) \<and> isspace (hd ys)))"
  by (induction xs rule: has_ws_run.induct) (auto simp: has_ws_run_Cons)

lemma has_ws_run_rev: "has_ws_run (rev s) = has_ws_run s"
  by (induction s) (auto simp: has_ws_run_append has_ws_run_Cons hd_rev last_rev)

lemma has_ws_run_dropWhile: "has_ws_run (dropWhile P s) \<Longrightarrow> has_ws_run s"
  by (induction s) (auto simp: has_ws_run_Cons split: if_splits)

lemma has_ws_run_strip: "has_ws_run (strip s) \<Longrightarrow> has_ws_run s"
  unfolding strip_def rstrip_def lstrip_def
  by (auto simp: has_ws_run_rev dest!: has_ws_run_dropWhile)

lemma match_ws2_None_iff:
  "match_ws2 (c # cs) = None \<longleftrightarrow> \<not> (isspace c \<and> cs \<noteq> [] \<and> isspace (hd cs))"
  by (cases cs) (auto simp: match_ws2_def Let_def)

lemma match_ws2_Some:
  "match_ws2 s = Some n \<Longrightarrow> n = length (takeWhile isspace s) \<and> 2 \<le> n"
  by (auto simp: match_ws2_def Let_def split: if_splits)

lemma drop_takeWhile: "drop (length (takeWhile P s)) s = dropWhile P s"
  by (induction s) auto

lemma re_sub_single_hd:
  "s \<noteq> [] \<Longrightarrow> isspace (hd (re_sub_ws2 SPACE s)) \<Longrightarrow> isspace (hd s)"
  by (cases s) (auto simp: SPACE_def match_ws2_def Let_def split: option.splits if_splits)

lemma hd_dropWhile_not: "dropWhile P s \<noteq> [] \<Longrightarrow> \<not> P (hd (dropWhile P s))"
  by (simp add: hd_dropWhile)

lemma re_sub_Nil_iff: "re_sub_ws2 SPACE s = [] \<longleftrightarrow> s = []"
  by (cases s) (auto simp: SPACE_def split: option.splits)

lemma re_sub_no_run: "\<not> has_ws_run (re_sub_ws2 SPACE s)"
proof (induction "SPACE" s rule: re_sub_ws2.induct)
  case 1
  show ?case by simp
next
  case (2 c cs)
  show ?case
  proof (cases "match_ws2 (c # cs)")
    case None
    then have ih: "\<not> has_ws_run (re_sub_ws2 SPACE cs)" using 2 by simp
    from None have nr: "\<not> (isspace c \<and> cs \<noteq> [] \<and> isspace (hd cs))"
      by (simp add: match_ws2_None_iff)
    have "\<not> (isspace c \<and> re_sub_ws2 SPACE cs \<noteq> [] \<and> isspace (hd (re_sub_ws2 SPACE cs)))"
      using nr re_sub_single_hd[of cs] by (auto simp: re_sub_Nil_iff)
    with ih None show ?thesis by (simp add: has_ws_run_Cons)
  next
    case (Some n)
    then have n: "n = length (takeWhile isspace (c # cs))" by (auto dest: match_ws2_Some)
    have d: "drop n (c # cs) = dropWhile isspace (c # cs)"
      unfolding n by (rule drop_takeWhile)
    have ih: "\<not> has_ws_run (re_sub_ws2 SPACE (drop n (c # cs)))" using 2 Some by simp
    have "re_sub_ws2 SPACE (drop n (c # cs)) \<noteq> [] \<Longrightarrow>
            \<not> isspace (hd (re_sub_ws2 SPACE (drop n (c # cs))))"
      unfolding d using re_sub_single_hd[of "dropWhile isspace (c # cs)"]
        hd_dropWhile_not[of isspace "c # cs"] by (auto simp: re_sub_Nil_iff)
    with ih Some show ?thesis by (auto simp: SPACE_def has_ws_run_Cons)
  qed
qed

lemma lstrip_hd: "lstrip s \<noteq> [] \<Longrightarrow> \<not> isspace (hd (lstrip s))"
  unfolding lstrip_def by (rule hd_dropWhile_not)

lemma rstrip_last: "rstrip s \<noteq> [] \<Longrightarrow> \<not> isspace (last (rstrip s))"
  unfolding rstrip_def using hd_dropWhile_not[of isspace "rev s"] by (simp add: last_rev)

lemma rstrip_Cons: "\<not> isspace c \<Longrightarrow> rstrip (c # cs) = c # rstrip cs"
  by (simp add: rstrip_def dropWhile_append)

lemma rstrip_hd: "s \<noteq> [] \<Longrightarrow> \<not> isspace (hd s) \<Longrightarrow> rstrip s \<noteq> [] \<and> hd (rstrip s) = hd s"
  by (cases s) (simp_all add: rstrip_Cons)

lemma strip_ends:
  "strip s \<noteq> [] \<Longrightarrow> \<not> isspace (hd (strip s)) \<and> \<not> isspace (last (strip s))"
proof -
  assume ne: "strip s \<noteq> []"
  then have l: "lstrip s \<noteq> []" by (auto simp: strip_def rstrip_def)
  then have "\<not> isspace (hd (lstrip s))" by (rule lstrip_hd)
  with l have "hd (rstrip (lstrip s)) = hd (lstrip s)" by (simp add: rstrip_hd)
  with \<open>\<not> isspace (hd (lstrip s))\<close> rstrip_last[of "lstrip s"] ne
  show ?thesis by (simp add: strip_def)
qed

lemma filter_dropWhile_sp: "filter (\<lambda>c. \<not> isspace c) (dropWhile isspace s) = filter (\<lambda>c. \<not> isspace c) s"
  by (induction s) auto

lemma filter_re_sub:
  "filter (\<lambda>c. \<not> isspace c) (re_sub_ws2 SPACE s) = filter (\<lambda>c. \<not> isspace c) s"
proof (induction "SPACE" s rule: re_sub_ws2.induct)
  case 1 show ?case by simp
next
  case (2 c cs)
  show ?case
  proof (cases "match_ws2 (c # cs)")
    case None
    then show ?thesis using 2 by simp
  next
    case (Some n)
    then have n: "n = length (takeWhile isspace (c # cs))" by (auto dest: match_ws2_Some)
    have d: "drop n (c # cs) = dropWhile isspace (c # cs)"
      unfolding n by (rule drop_takeWhile)
    have ih: "filter (\<lambda>c. \<not> isspace c) (re_sub_ws2 SPACE (drop n (c # cs)))
               = filter (\<lambda>c. \<not> isspace c) (drop n (c # cs))"
      using 2 Some by simp
    have unf: "re_sub_ws2 SPACE (c # cs) = SPACE @ re_sub_ws2 SPACE (drop n (c # cs))"
      using Some by simp
    have sp: "filter (\<lambda>c. \<not> isspace c) SPACE = []"
      by (simp add: SPACE_def isspace_def)
    have "filter (\<lambda>c. \<not> isspace c) (re_sub_ws2 SPACE (c # cs))
            = filter (\<lambda>c. \<not> isspace c) (drop n (c # cs))"
      by (simp only: unf filter_append sp ih append_Nil)
    also have "\<dots> = filter (\<lambda>c. \<not> isspace c) (c # cs)"
      by (simp only: d filter_dropWhile_sp)
    finally show ?thesis .
  qed
qed

lemma filter_strip: "filter (\<lambda>c. \<not> isspace c) (strip s) = filter (\<lambda>c. \<not> isspace c) s"
  unfolding strip_def rstrip_def lstrip_def
  by (simp add: filter_dropWhile_sp flip: rev_filter)

lemma match_ws2_append:
  "\<not> isspace (last (c # cs)) \<Longrightarrow> match_ws2 ((c # cs) @ w) = match_ws2 (c # cs)"
proof -
  assume a: "\<not> isspace (last (c # cs))"
  have "last (c # cs) \<in> set (c # cs)" by (rule last_in_set) simp
  with a have "takeWhile isspace ((c # cs) @ w) = takeWhile isspace (c # cs)"
    by (intro takeWhile_append1) auto
  then show ?thesis by (simp only: match_ws2_def)
qed

lemma drop_append_le: "n \<le> length xs \<Longrightarrow> drop n (xs @ w) = drop n xs @ w"
  by simp

lemma re_sub_ws2_append:
  "u = [] \<or> \<not> isspace (last u) \<Longrightarrow>
     re_sub_ws2 repl (u @ w) = re_sub_ws2 repl u @ re_sub_ws2 repl w"
proof (induction repl u rule: re_sub_ws2.induct)
  case (1 repl)
  show ?case by simp
next
  case (2 repl c cs)
  then have nl: "\<not> isspace (last (c # cs))" by simp
  have m: "match_ws2 ((c # cs) @ w) = match_ws2 (c # cs)"
    using nl by (rule match_ws2_append)
  show ?case
  proof (cases "match_ws2 (c # cs)")
    case None
    have "cs = [] \<or> \<not> isspace (last cs)" using nl by (cases cs) auto
    with 2 None have "re_sub_ws2 repl (cs @ w) = re_sub_ws2 repl cs @ re_sub_ws2 repl w"
      by simp
    moreover have "re_sub_ws2 repl ((c # cs) @ w) = c # re_sub_ws2 repl (cs @ w)"
      using m None by simp
    ultimately show ?thesis using None by simp
  next
    case (Some n)
    then have n: "n = length (takeWhile isspace (c # cs))" by (auto dest: match_ws2_Some)
    then have le: "n \<le> length (c # cs)" using length_takeWhile_le by blast
    have l: "drop n (c # cs) = [] \<or> \<not> isspace (last (drop n (c # cs)))"
      using nl le by (cases "drop n (c # cs) = []") (simp_all only: last_drop, auto)
    have ih: "re_sub_ws2 repl (drop n (c # cs) @ w)
                = re_sub_ws2 repl (drop n (c # cs)) @ re_sub_ws2 repl w"
      using 2 Some l by blast
    have d: "drop n ((c # cs) @ w) = drop n (c # cs) @ w" using le by (rule drop_append_le)
    have "re_sub_ws2 repl ((c # cs) @ w) = repl @ re_sub_ws2 repl (drop n ((c # cs) @ w))"
      using m Some by (simp del: drop_Suc_Cons drop_append)
    also have "\<dots> = repl @ re_sub_ws2 repl (drop n (c # cs)) @ re_sub_ws2 repl w"
      by (simp only: d ih)
    also have "\<dots> = re_sub_ws2 repl (c # cs) @ re_sub_ws2 repl w"
      using Some by (simp del: drop_Suc_Cons)
    finally show ?thesis .
  qed
qed

lemma re_sub_ws2_run_head:
  assumes "\<forall>c \<in> set run. isspace c" and "2 \<le> length run" and "v = [] \<or> \<not> isspace (hd v)"
  shows "re_sub_ws2 repl (run @ v) = repl @ re_sub_ws2 repl v"
proof -
  have t: "takeWhile isspace (run @ v) = run"
    using assms(1,3) by (cases v) (auto simp: takeWhile_append2)
  obtain c cs where r: "run @ v = c # cs" using assms(2) by (cases run) auto
  have "match_ws2 (run @ v) = Some (length run)"
    using assms(2) by (simp add: match_ws2_def t)
  then have "re_sub_ws2 repl (c # cs) = repl @ re_sub_ws2 repl (drop (length run) (c # cs))"
    unfolding r by (simp del: drop_Suc_Cons)
  then show ?thesis unfolding r[symmetric] by simp
qed

lemma re_sub_ws2_run:
  assumes "u = [] \<or> \<not> isspace (last u)"
    and "\<forall>c \<in> set run. isspace c" and "2 \<le> length run"
    and "v = [] \<or> \<not> isspace (hd v)"
  shows "re_sub_ws2 repl (u @ run @ v) = re_sub_ws2 repl u @ repl @ re_sub_ws2 repl v"
  by (simp only: re_sub_ws2_append[OF assms(1)] re_sub_ws2_run_head[OF assms(2,3,4)])


section \<open>The generation globals\<close>


lemma load_cases:
  "globals_ok e st \<Longrightarrow>
   \<exists>t m st1. load_generation_model e st
       = ((Some t, m, config_flag (AutoConfig_is_encoder_decoder e (HF_GENERATION_MODEL e))), st1)
     \<and> generation_model st1 = Some m \<and> generation_tokenizer st1 = Some t
     \<and> vectorstore st1 = vectorstore st \<and> files st1 = files st
     \<and> generate_calls st1 = generate_calls st \<and> globals_ok e st1"
  by (cases "generation_model st")
     (auto simp: load_generation_model_def globals_ok_def Let_def)

lemma generate_response_ok:
  assumes "globals_ok e st"
  shows "\<exists>t m st0 out st1.
      load_generation_model e st
        = ((Some t, m, config_flag (AutoConfig_is_encoder_decoder e (HF_GENERATION_MODEL e))), st0)
    \<and> generate_response e st prompt n = (Inr out, st1)
    \<and> out = strip (tok_decode t
               (if config_flag (AutoConfig_is_encoder_decoder e (HF_GENERATION_MODEL e))
                then generate m (tok_call t prompt True 2048) n (pad_or_eos t)
                else drop (length (input_ids (tok_call t prompt True 2048)))
                       (generate m (tok_call t prompt True 2048) n (pad_or_eos t))) True)
    \<and> st1 = st0\<lparr>generate_calls := generate_calls st @ [(tok_call t prompt True 2048, n, pad_or_eos t)]\<rparr>
    \<and> vectorstore st1 = vectorstore st \<and> files st1 = files st \<and> globals_ok e st1"
proof -
  from load_cases[OF assms] obtain t m st0 where
    l: "load_generation_model e st
       = ((Some t, m, config_flag (AutoConfig_is_encoder_decoder e (HF_GENERATION_MODEL e))), st0)"
    and r: "vectorstore st0 = vectorstore st" "files st0 = files st"
       "generate_calls st0 = generate_calls st" "globals_ok e st0"
    by blast
  show ?thesis
    using l r by (simp add: generate_response_def Let_def globals_ok_def)
qed


lemma handle_globals_ok:
  "handle e st r = (resp, st') \<Longrightarrow> globals_ok e st \<Longrightarrow> globals_ok e st'"
  by (cases r)
     (auto simp: globals_ok_def upload_pdf_def ask_question_def summarize_pdf_def
                 generate_response_def load_generation_model_def Let_def
           split: option.splits prod.splits sum.splits if_splits)

lemma serve_globals_ok:
  "serve e st rs = (resps, st') \<Longrightarrow> globals_ok e st \<Longrightarrow> globals_ok e st'"
  by (induction rs arbitrary: st resps)
     (auto split: prod.splits dest: handle_globals_ok)


section \<open>What the endpoints change\<close>

text \<open>
  /ask and /summarize neither read nor write the files and leave the index alone; /upload
  writes one file and, when it succeeds, sets the index.
\<close>

lemma ask_question_files:
  "ask_question e (st\<lparr>files := f\<rparr>) q
     = (fst (ask_question e st q), (snd (ask_question e st q))\<lparr>files := f\<rparr>)"
  by (auto simp: ask_question_def generate_response_def load_generation_model_def Let_def
           split: option.splits prod.splits sum.splits)

lemma summarize_pdf_files:
  "summarize_pdf e (st\<lparr>files := f\<rparr>)
     = (fst (summarize_pdf e st), (snd (summarize_pdf e st))\<lparr>files := f\<rparr>)"
  by (auto simp: summarize_pdf_def generate_response_def load_generation_model_def Let_def
           split: option.splits prod.splits sum.splits)

lemma upload_400_state:
  assumes "upload_pdf e st filename content = (HTTPException 400 detail, st')"
  shows "st' = st \<or> st' = st\<lparr>files := (files st)(lit ''temp_'' @ filename \<mapsto> content)\<rparr>"
  using assms by (auto simp: upload_pdf_def Let_def split: if_splits option.splits)

lemma ask_question_keeps:
  "ask_question e st q = (resp, st') \<Longrightarrow>
     vectorstore st' = vectorstore st \<and> files st' = files st"
  by (auto simp: ask_question_def generate_response_def load_generation_model_def Let_def
           split: option.splits prod.splits sum.splits if_splits)

lemma summarize_pdf_keeps:
  "summarize_pdf e st = (resp, st') \<Longrightarrow>
     vectorstore st' = vectorstore st \<and> files st' = files st"
  by (auto simp: summarize_pdf_def generate_response_def load_generation_model_def Let_def
           split: option.splits prod.splits sum.splits if_splits)

lemma upload_pdf_index:
  "upload_pdf e st filename content = (resp, st') \<Longrightarrow>
     (status_code resp = 200 \<longrightarrow> vectorstore st' \<noteq> None)
   \<and> (status_code resp \<noteq> 200 \<longrightarrow> vectorstore st' = vectorstore st)
   \<and> files st' = (if endswith filename (lit ''.pdf'') \<and> open_wb e (lit ''temp_'' @ filename) = None
                  then (files st)(lit ''temp_'' @ filename \<mapsto> content) else files st)"
  by (auto simp: upload_pdf_def Let_def split: if_splits option.splits)

lemma handle_index:
  "handle e st r = (resp, st') \<Longrightarrow>
     (vectorstore st' = None \<longleftrightarrow> vectorstore st = None \<and> \<not> upload_succeeded (r, resp))
   \<and> files st' = written_by (open_wb e) [r] (files st)"
proof (cases r)
  case (Upload filename content)
  assume "handle e st r = (resp, st')"
  with Upload have "upload_pdf e st filename content = (resp, st')" by simp
  from upload_pdf_index[OF this] show ?thesis
    using Upload by (auto simp: written_by_def)
next
  case (Ask question)
  assume "handle e st r = (resp, st')"
  with Ask show ?thesis
    by (auto simp: written_by_def split: option.splits dest: ask_question_keeps)
next
  case Summarize
  assume "handle e st r = (resp, st')"
  with Summarize show ?thesis
    by (auto simp: written_by_def dest: summarize_pdf_keeps)
qed

lemma written_by_Cons:
  "written_by opens (r # rs) fs = written_by opens rs (written_by opens [r] fs)"
  by (simp add: written_by_def)

lemma written_by_origin:
  "written_by opens rs fs path = Some b \<Longrightarrow>
     fs path = Some b
   \<or> (\<exists>filename. Upload filename b \<in> set rs \<and> path = lit ''temp_'' @ filename)"
proof (induction rs arbitrary: fs)
  case Nil
  then show ?case by (simp add: written_by_def)
next
  case (Cons r rs)
  from Cons.prems have "written_by opens rs (written_by opens [r] fs) path = Some b"
    by (simp only: written_by_Cons[of opens r rs])
  from Cons.IH[OF this] show ?case
  proof
    assume "written_by opens [r] fs path = Some b"
    then show ?thesis
      by (cases r) (auto simp: written_by_def split: if_splits)
  next
    assume "\<exists>filename. Upload filename b \<in> set rs \<and> path = lit ''temp_'' @ filename"
    then show ?thesis by auto
  qed
qed

lemma serve_index:
  "serve e st rs = (resps, st') \<Longrightarrow>
     (vectorstore st' = None \<longleftrightarrow>
        vectorstore st = None \<and> \<not> (\<exists>p \<in> set (zip rs resps). upload_succeeded p))
   \<and> files st' = written_by (open_wb e) rs (files st)"
proof (induction rs arbitrary: st resps)
  case Nil
  then show ?case by (simp add: written_by_def)
next
  case (Cons r rs)
  obtain resp st1 where h: "handle e st r = (resp, st1)" by (cases "handle e st r")
  from Cons.prems h obtain rest where s: "serve e st1 rs = (rest, st')"
    and eq: "resps = resp # rest"
    by (auto split: prod.splits)
  from handle_index[OF h] Cons.IH[OF s] show ?case
    unfolding eq by (auto simp: written_by_Cons[of "open_wb e" r rs])
qed

section \<open>Context and prompts\<close>

text \<open>
  \<open>join\<close> puts the separator between consecutive elements, and the two prompts are the
  texts of \<open>main.py\<close> around the context and the question.
\<close>

lemma join_Cons: "join sep (x # xs) = x @ concat (map (\<lambda>y. sep @ y) xs)"
  by (induction xs arbitrary: x) simp_all

lemma ask_prompt_text:
  "ask_prompt context query =
     map of_char ''You are a helpful assistant answering ONLY from the context below.''
     @ [10, 10] @ map of_char ''Context:'' @ [10] @ context @ [10, 10]
     @ map of_char ''Question: '' @ query @ [10] @ map of_char ''Answer:''"
  by (simp only: ask_prompt_def lit_def NL_def append_Cons append_Nil append_assoc)

lemma summarize_prompt_text:
  "summarize_prompt context =
     map of_char ''Summarize the document in 6-8 concise bullet points.''
     @ [10, 10] @ map of_char ''Context:'' @ [10] @ context @ [10, 10]
     @ map of_char ''Summary:''"
  by (simp only: summarize_prompt_def lit_def NL_def append_Cons append_Nil append_assoc)

lemma join_blank_lines:
  "join (NL @ NL) (map page_content docs) =
     (case docs of
        [] \<Rightarrow> []
      | d # ds \<Rightarrow> page_content d @ concat (map (\<lambda>x. [10, 10] @ page_content x) ds))"
  by (cases docs) (simp_all add: join_Cons NL_def comp_def)


section \<open>The example environment, evaluated\<close>

lemmas example_defs =
  example_state_def example_env_def example_tokenizer_def example_seq2seq_def
  example_causal_def upload_pdf_def startup_def lit_def endswith_def Let_def embedding_model_def

lemmas generation_defs =
  generate_response_def load_generation_model_def config_flag_def HF_GENERATION_MODEL_def
  pad_or_eos_def

lemmas whitespace_defs =
  strip_def lstrip_def rstrip_def isspace_def SPACE_def match_ws2_def

lemma example_state_Paris:
  "vectorstore (example_state ''Paris'')
     = Some [\<lparr> page_content = lit ''Paris'', metadata = [(lit ''source'', lit ''temp_a.pdf'')] \<rparr>]"
  by (simp add: example_defs)

lemma example_state_42:
  "vectorstore (example_state ''42'')
     = Some [\<lparr> page_content = lit ''42'', metadata = [(lit ''source'', lit ''temp_a.pdf'')] \<rparr>]"
  by (simp add: example_defs)

lemma example_state_globals_ok: "globals_ok e (example_state content)"
  by (simp add: globals_ok_def example_defs)

lemma example_strip:
  "strip (lit '' is it Paris? '') = lit ''is it Paris?''"
  "strip (lit ''why'') = lit ''why''"
  by (simp_all add: strip_def lstrip_def rstrip_def isspace_def lit_def)

lemma example_AskRequest: "AskRequest (lit ''why'') = Some (lit ''why'')"
  by (simp add: AskRequest_def whitespace_defs lit_def)

lemma example_retrieval:
  "similarity_search (example_env b)
     [\<lparr> page_content = lit ''Paris'', metadata = [(lit ''source'', lit ''temp_a.pdf'')] \<rparr>]
     (lit ''is it Paris?'') 6
   = [\<lparr> page_content = lit ''Paris'', metadata = [(lit ''source'', lit ''temp_a.pdf'')] \<rparr>]"
  "similarity_search (example_env b)
     [\<lparr> page_content = lit ''Paris'', metadata = [(lit ''source'', lit ''temp_a.pdf'')] \<rparr>]
     (lit ''why'') 6 = []"
  "similarity_search (example_env b)
     [\<lparr> page_content = lit ''42'', metadata = [(lit ''source'', lit ''temp_a.pdf'')] \<rparr>]
     (lit ''Summarize the document'') 8 = []"
  by (simp_all add: example_env_def lit_def)

lemma example_generate_seq2seq:
  "fst (generate_response (example_env True) (example_state content) prompt 300)
     = Inr [72, 105, 32, 32, 10, 33]"
  "fst (generate_response (example_env True) (example_state content) prompt 350)
     = Inr [72, 105, 32, 32, 10, 33]"
  by (simp_all add: generation_defs example_defs whitespace_defs)

lemma example_normalize:
  "strip (re_sub_ws2 SPACE [72, 105, 32, 32, 10, 33]) = lit ''Hi !''"
  by (simp add: whitespace_defs lit_def)

lemma example_state_two_pages:
  "vectorstore (example_state (''Paris'' @ [CHR 0x0C] @ ''Rome''))
     = Some [\<lparr> page_content = lit ''Paris'', metadata = [(lit ''source'', lit ''temp_a.pdf'')] \<rparr>,
             \<lparr> page_content = lit ''Rome'', metadata = [(lit ''source'', lit ''temp_a.pdf'')] \<rparr>]"
  by (simp add: example_defs)

lemma echo_env_globals_ok: "globals_ok echo_env (example_state content)"
  by (simp add: globals_ok_def example_defs)

lemma echo_env_retrieval:
  "similarity_search echo_env
     [\<lparr> page_content = lit ''Paris'', metadata = [(lit ''source'', lit ''temp_a.pdf'')] \<rparr>,
      \<lparr> page_content = lit ''Rome'', metadata = [(lit ''source'', lit ''temp_a.pdf'')] \<rparr>]
     (lit ''Rome or Paris?'') 6
   = [\<lparr> page_content = lit ''Paris'', metadata = [(lit ''source'', lit ''temp_a.pdf'')] \<rparr>,
      \<lparr> page_content = lit ''Rome'', metadata = [(lit ''source'', lit ''temp_a.pdf'')] \<rparr>]"
  "similarity_search echo_env
     [\<lparr> page_content = lit ''Paris'', metadata = [(lit ''source'', lit ''temp_a.pdf'')] \<rparr>,
      \<lparr> page_content = lit ''Rome'', metadata = [(lit ''source'', lit ''temp_a.pdf'')] \<rparr>]
     (lit ''Summarize the document'') 8
   = [\<lparr> page_content = lit ''Paris'', metadata = [(lit ''source'', lit ''temp_a.pdf'')] \<rparr>,
      \<lparr> page_content = lit ''Rome'', metadata = [(lit ''source'', lit ''temp_a.pdf'')] \<rparr>]"
  by (simp_all add: echo_env_def example_env_def lit_def)

lemma example_state_no_model: "generation_model (example_state content) = None"
  by (simp add: example_state_def upload_pdf_def startup_def Let_def split: option.splits)

lemma echo_env_load:
  "load_generation_model echo_env (example_state content) = ((Some t, m, flag), st0) \<Longrightarrow>
     t = example_tokenizer \<and> m = example_causal\<lparr>training := False\<rparr> \<and> flag"
  by (auto simp: load_generation_model_def example_state_no_model echo_env_def example_env_def
                 config_flag_def Let_def)

lemma example_strip_question: "strip (lit '' Rome or Paris? '') = lit ''Rome or Paris?''"
  by (simp add: strip_def lstrip_def rstrip_def isspace_def lit_def)

section \<open>The claims\<close>

subsection \<open>C1: the ask pipeline\<close>

text \<open>
  Claim C1, as amended.  For every /ask request made when the global index is set and the
  similarity search for the stripped question (\<open>k = 6\<close>) returns at least one chunk: the
  \<open>page_content\<close> fields of the retrieved chunks are joined with blank lines into a
  context, the prompt is the instruction text followed by the context and then the
  question, the generation model is called once on that prompt with
  \<open>max_new_tokens = 300\<close>, and the answer returned is the decoded output of that call
  with every run of two or more whitespace characters replaced by one space, stripped.
  The context and the prompt are written out: \<open>10\<close> is the line feed.
\<close>

theorem ask_question_pipeline:
  assumes "vectorstore st = Some vs" and "globals_ok e st"
    and "similarity_search e vs (strip question) 6 = d # ds"
  shows "\<exists>t m flag st0 out st1.
     (let context = page_content d @ concat (map (\<lambda>x. [10, 10] @ page_content x) ds);
          prompt = map of_char ''You are a helpful assistant answering ONLY from the context below.''
                   @ [10, 10] @ map of_char ''Context:'' @ [10] @ context @ [10, 10]
                   @ map of_char ''Question: '' @ strip question @ [10] @ map of_char ''Answer:'';
          enc = tok_call t prompt True 2048;
          generated_ids = generate m enc 300 (pad_or_eos t)
      in load_generation_model e st = ((Some t, m, flag), st0)
       \<and> out = strip (tok_decode t
                 (if flag then generated_ids
                  else drop (length (input_ids enc)) generated_ids) True)
       \<and> generate_response e st prompt 300 = (Inr out, st1)
       \<and> generate_calls st1 = generate_calls st @ [(enc, 300, pad_or_eos t)]
       \<and> ask_question e st question
           = (Return [(map of_char ''answer'', strip (re_sub_ws2 SPACE out))], st1))"
proof -
  define ctx where
    "ctx = page_content d @ concat (map (\<lambda>x. [10, 10] @ page_content x) ds)"
  define prompt where
    "prompt = map of_char ''You are a helpful assistant answering ONLY from the context below.''
              @ [10, 10] @ map of_char ''Context:'' @ [10] @ ctx @ [10, 10]
              @ map of_char ''Question: '' @ strip question @ [10] @ map of_char ''Answer:''"
  have j: "join (NL @ NL) (page_content d # map page_content ds) = ctx"
    unfolding ctx_def using join_blank_lines[of "d # ds"] by simp
  have p: "ask_prompt ctx (strip question) = prompt"
    unfolding prompt_def by (rule ask_prompt_text)
  from generate_response_ok[OF assms(2), of prompt 300] obtain t m st0 out st1 where
    l: "load_generation_model e st
        = ((Some t, m, config_flag (AutoConfig_is_encoder_decoder e (HF_GENERATION_MODEL e))), st0)"
    and g: "generate_response e st prompt 300 = (Inr out, st1)"
    and o: "out = strip (tok_decode t
               (if config_flag (AutoConfig_is_encoder_decoder e (HF_GENERATION_MODEL e))
                then generate m (tok_call t prompt True 2048) 300 (pad_or_eos t)
                else drop (length (input_ids (tok_call t prompt True 2048)))
                       (generate m (tok_call t prompt True 2048) 300 (pad_or_eos t))) True)"
    and c: "st1 = st0\<lparr>generate_calls :=
                        generate_calls st @ [(tok_call t prompt True 2048, 300, pad_or_eos t)]\<rparr>"
    by blast
  have a: "ask_question e st question
             = (Return [(map of_char ''answer'', strip (re_sub_ws2 SPACE out))], st1)"
    using assms(1,3) g
    by (simp add: ask_question_def Let_def j p del: join.simps) (simp add: lit_def)
  have c': "generate_calls st1
              = generate_calls st @ [(tok_call t prompt True 2048, 300, pad_or_eos t)]"
    using c by simp
  show ?thesis
    apply (rule exI[of _ t], rule exI[of _ m])
    apply (rule exI[of _ "config_flag (AutoConfig_is_encoder_decoder e (HF_GENERATION_MODEL e))"])
    apply (rule exI[of _ st0], rule exI[of _ out], rule exI[of _ st1])
    unfolding Let_def ctx_def[symmetric] prompt_def[symmetric]
    using l g o c' a by (intro conjI) simp_all
qed

text \<open>
  In the example the index holds the chunks \<open>"Paris"\<close> and \<open>"Rome"\<close> and the model returns
  its input followed by \<open>"OK"\<close>, so the answer shows the prompt: the instruction, the two
  chunks with a blank line between them, the stripped question.  The blank lines have
  become single spaces in the answer.
\<close>

theorem ask_question_pipeline_witness:
  "vectorstore (example_state (''Paris'' @ [CHR 0x0C] @ ''Rome'')) \<noteq> None
   \<and> fst (ask_question echo_env (example_state (''Paris'' @ [CHR 0x0C] @ ''Rome''))
            (map of_char '' Rome or Paris? ''))
       = Return [(map of_char ''answer'',
            map of_char ''You are a helpful assistant answering ONLY from the context below.''
            @ [32] @ map of_char ''Context:'' @ [10] @ map of_char ''Paris'' @ [32]
            @ map of_char ''Rome'' @ [32] @ map of_char ''Question: Rome or Paris?'' @ [10]
            @ map of_char ''Answer:OK'')]"
proof -
  let ?d = "\<lparr> page_content = lit ''Paris'', metadata = [(lit ''source'', lit ''temp_a.pdf'')] \<rparr>"
  let ?d' = "\<lparr> page_content = lit ''Rome'', metadata = [(lit ''source'', lit ''temp_a.pdf'')] \<rparr>"
  let ?st = "example_state (''Paris'' @ [CHR 0x0C] @ ''Rome'')"
  let ?q = "lit '' Rome or Paris? ''"
  have v: "vectorstore ?st = Some [?d, ?d']"
    by (rule example_state_two_pages)
  have g: "globals_ok echo_env ?st"
    by (rule echo_env_globals_ok)
  have s: "similarity_search echo_env [?d, ?d'] (strip ?q) 6 = [?d, ?d']"
    by (simp only: example_strip_question echo_env_retrieval)
  from ask_question_pipeline[OF v g s] obtain t m flag st0 out st1 where
    l: "load_generation_model echo_env ?st = ((Some t, m, flag), st0)"
    and o: "out = strip (tok_decode t
              (if flag
               then generate m (tok_call t
                 (map of_char ''You are a helpful assistant answering ONLY from the context below.''
                  @ [10, 10] @ map of_char ''Context:'' @ [10]
                  @ (page_content ?d @ concat (map (\<lambda>x. [10, 10] @ page_content x) [?d']))
                  @ [10, 10] @ map of_char ''Question: '' @ strip ?q @ [10]
                  @ map of_char ''Answer:'') True 2048) 300 (pad_or_eos t)
               else drop (length (input_ids (tok_call t
                 (map of_char ''You are a helpful assistant answering ONLY from the context below.''
                  @ [10, 10] @ map of_char ''Context:'' @ [10]
                  @ (page_content ?d @ concat (map (\<lambda>x. [10, 10] @ page_content x) [?d']))
                  @ [10, 10] @ map of_char ''Question: '' @ strip ?q @ [10]
                  @ map of_char ''Answer:'') True 2048)))
                 (generate m (tok_call t
                 (map of_char ''You are a helpful assistant answering ONLY from the context below.''
                  @ [10, 10] @ map of_char ''Context:'' @ [10]
                  @ (page_content ?d @ concat (map (\<lambda>x. [10, 10] @ page_content x) [?d']))
                  @ [10, 10] @ map of_char ''Question: '' @ strip ?q @ [10]
                  @ map of_char ''Answer:'') True 2048) 300 (pad_or_eos t))) True)"
    and a: "ask_question echo_env ?st ?q
              = (Return [(map of_char ''answer'', strip (re_sub_ws2 SPACE out))], st1)"
    unfolding Let_def by blast
  from echo_env_load[OF l] have t: "t = example_tokenizer"
    and m: "m = example_causal\<lparr>training := False\<rparr>" and f: "flag"
    by simp_all
  have o': "out = map of_char ''You are a helpful assistant answering ONLY from the context below.''
              @ [10, 10] @ map of_char ''Context:'' @ [10] @ map of_char ''Paris'' @ [10, 10]
              @ map of_char ''Rome'' @ [10, 10] @ map of_char ''Question: Rome or Paris?'' @ [10]
              @ map of_char ''Answer:OK''"
    unfolding o t m using f
    by (simp add: example_tokenizer_def example_causal_def pad_or_eos_def lit_def whitespace_defs)
  have n: "strip (re_sub_ws2 SPACE out)
             = map of_char ''You are a helpful assistant answering ONLY from the context below.''
               @ [32] @ map of_char ''Context:'' @ [10] @ map of_char ''Paris'' @ [32]
               @ map of_char ''Rome'' @ [32] @ map of_char ''Question: Rome or Paris?'' @ [10]
               @ map of_char ''Answer:OK''"
    unfolding o' by (simp add: whitespace_defs)
  have "fst (ask_question echo_env ?st ?q)
          = Return [(map of_char ''answer'', strip (re_sub_ws2 SPACE out))]"
    unfolding a by simp
  then show ?thesis unfolding n using v by (simp add: lit_def)
qed

text \<open>
  Claim C1 as it is written fails in two ways.  When the model's output holds a run of
  whitespace, the answer is not that output; and when the search returns no chunk, the
  answer is a fixed sentence and no prompt reaches the model.
\<close>

theorem ask_question_pipeline_counterexample:
  "vectorstore (example_state ''Paris'') \<noteq> None
   \<and> fst (ask_question (example_env True) (example_state ''Paris'') (lit '' is it Paris? ''))
       \<noteq> ask_as_claimed (example_env True) (example_state ''Paris'') (lit '' is it Paris? '')
   \<and> fst (ask_question (example_env True) (example_state ''Paris'') (lit ''why''))
       \<noteq> ask_as_claimed (example_env True) (example_state ''Paris'') (lit ''why'')"
proof -
  have 1: "ask_as_claimed (example_env True) (example_state ''Paris'') q
             = Return [(lit ''answer'', [72, 105, 32, 32, 10, 33])]" for q
    by (simp add: ask_as_claimed_def example_state_Paris example_generate_seq2seq Let_def)
  have 2: "fst (ask_question (example_env True) (example_state ''Paris'') (lit '' is it Paris? ''))
             = Return [(lit ''answer'', lit ''Hi !'')]"
    by (simp add: ask_question_def example_state_Paris example_strip example_retrieval
          example_generate_seq2seq example_normalize Let_def split_def
          del: re_sub_ws2.simps)
  have 3: "fst (ask_question (example_env True) (example_state ''Paris'') (lit ''why''))
             = Return [(lit ''answer'', lit ''Not found in document.'')]"
    by (simp add: ask_question_def example_state_Paris example_strip example_retrieval)
  show ?thesis
    unfolding 1 2 3 by (simp add: example_state_Paris lit_def)
qed

subsection \<open>C2: decoding by architecture\<close>



subsection \<open>C3: one index, replaced by each upload\<close>

text \<open>
  Claim C3.  After a successful /upload the global \<open>vectorstore\<close> is the index built from
  the chunks of the uploaded PDF and from nothing else: it is the same whatever the state
  before the request was, so nothing of an earlier document is left in it.
\<close>

theorem upload_replaces_index:
  assumes "upload_pdf e st filename content = (resp, st')" and "status_code resp = 200"
  shows "let chunks = split_documents e 800 150
                        (PyPDFLoader_load e (lit ''temp_'' @ filename) content)
         in resp = Return [(lit ''doc_id'', filename)]
          \<and> chunks \<noteq> []
          \<and> vectorstore st' = Some (FAISS_from_documents e chunks embedding_model)
          \<and> (\<forall>st2. vectorstore (snd (upload_pdf e st2 filename content)) = vectorstore st')"
  using assms
  by (auto simp: upload_pdf_def Let_def split: if_splits option.splits)

text \<open>
  In the example, uploading \<open>b.pdf\<close> with the text \<open>"42"\<close> over the index of \<open>"Paris"\<close>
  leaves an index with the one chunk \<open>"42"\<close>.
\<close>

theorem upload_replaces_index_witness:
  "status_code (fst (upload_pdf (example_env True) (example_state ''Paris'') (lit ''b.pdf'') ''42''))
     = 200
   \<and> vectorstore (snd (upload_pdf (example_env True) (example_state ''Paris'') (lit ''b.pdf'') ''42''))
       = Some [\<lparr> page_content = lit ''42'', metadata = [(lit ''source'', lit ''temp_b.pdf'')] \<rparr>]"
proof -
  let ?u = "upload_pdf (example_env True) (example_state ''Paris'') (lit ''b.pdf'') ''42''"
  have p: "?u = (fst ?u, snd ?u)" by simp
  have s: "status_code (fst ?u) = 200"
    by (simp add: upload_pdf_def example_env_def lit_def endswith_def Let_def)
  from upload_replaces_index[OF p s]
  have "vectorstore (snd ?u)
          = Some (FAISS_from_documents (example_env True)
              (split_documents (example_env True) 800 150
                 (PyPDFLoader_load (example_env True) (lit ''temp_'' @ lit ''b.pdf'') ''42''))
              embedding_model)"
    by (simp add: Let_def)
  then show ?thesis using s by (simp add: example_env_def lit_def)
qed

subsection \<open>C4: how detected failures are reported\<close>

text \<open>
  Claim C4, as amended.  The failures /upload detects are raised as HTTP errors with a
  detail message: a file name that does not end in \<open>.pdf\<close> gives status 400 with
  \<open>"Only PDF files are allowed."\<close>; a \<open>.pdf\<close> file that was stored and has no chunks
  gives status 400 with \<open>"No text found in PDF."\<close>; and an /upload response with status 200
  is the success response for a stored \<open>.pdf\<close> file with at least one chunk.  When the file
  cannot be opened for writing, the exception is not handled: the response has status 500
  and the state is unchanged.  /ask and /summarize report a missing index differently:
  they return, with status 200, the sentence \<open>"Please upload a PDF first."\<close> in the body,
  and leave the state as it is.
\<close>

theorem detected_failures_responses:
  "(\<not> endswith filename (lit ''.pdf'') \<longrightarrow>
      upload_pdf e st filename content
        = (HTTPException 400 (lit ''Only PDF files are allowed.''), st))
   \<and> (endswith filename (lit ''.pdf'') \<and> open_wb e (lit ''temp_'' @ filename) = None
        \<and> split_documents e 800 150 (PyPDFLoader_load e (lit ''temp_'' @ filename) content) = []
      \<longrightarrow> fst (upload_pdf e st filename content)
            = HTTPException 400 (lit ''No text found in PDF.''))
   \<and> (\<forall>err. endswith filename (lit ''.pdf'') \<and> open_wb e (lit ''temp_'' @ filename) = Some err
      \<longrightarrow> upload_pdf e st filename content = (Unhandled err, st)
          \<and> status_code (fst (upload_pdf e st filename content)) = 500)
   \<and> (status_code (fst (upload_pdf e st filename content)) = 200 \<longrightarrow>
        fst (upload_pdf e st filename content) = Return [(lit ''doc_id'', filename)]
        \<and> endswith filename (lit ''.pdf'')
        \<and> open_wb e (lit ''temp_'' @ filename) = None
        \<and> split_documents e 800 150 (PyPDFLoader_load e (lit ''temp_'' @ filename) content) \<noteq> [])
   \<and> (vectorstore st = None \<longrightarrow>
        ask_question e st question
          = (Return [(lit ''answer'', lit ''Please upload a PDF first.'')], st)
        \<and> summarize_pdf e st
          = (Return [(lit ''summary'', lit ''Please upload a PDF first.'')], st))"
  by (auto simp: upload_pdf_def ask_question_def summarize_pdf_def Let_def
           split: option.splits)

text \<open>
  In the example: \<open>notes.txt\<close> is refused with status 400, and so is an empty \<open>a.pdf\<close>;
  \<open>x/a.pdf\<close> cannot be stored, there is no directory \<open>temp_x\<close>, and the response has
  status 500; /summarize before any upload answers with status 200.
\<close>

theorem detected_failures_responses_witness:
  "\<not> endswith (lit ''notes.txt'') (lit ''.pdf'')
   \<and> status_code (fst (upload_pdf (example_env True) (startup Map.empty) (lit ''notes.txt'') ''x''))
       = 400
   \<and> endswith (lit ''a.pdf'') (lit ''.pdf'')
   \<and> status_code (fst (upload_pdf (example_env True) (startup Map.empty) (lit ''a.pdf'') []))
       = 400
   \<and> endswith (lit ''x/a.pdf'') (lit ''.pdf'')
   \<and> upload_pdf (example_env True) (startup Map.empty) (lit ''x/a.pdf'') ''Paris''
       = (Unhandled FileNotFoundError, startup Map.empty)
   \<and> vectorstore (startup Map.empty :: document list state) = None
   \<and> status_code (fst (summarize_pdf (example_env True) (startup Map.empty))) = 200"
proof -
  let ?e = "example_env True"
  let ?st = "startup Map.empty :: document list state"
  have n: "\<not> endswith (lit ''notes.txt'') (lit ''.pdf'')"
    and p: "endswith (lit ''a.pdf'') (lit ''.pdf'')"
    and x: "endswith (lit ''x/a.pdf'') (lit ''.pdf'')"
    by (simp_all add: endswith_def lit_def)
  have o: "open_wb ?e (lit ''temp_'' @ lit ''a.pdf'') = None"
    and ox: "open_wb ?e (lit ''temp_'' @ lit ''x/a.pdf'') = Some FileNotFoundError"
    by (simp_all add: example_env_def lit_def)
  have c: "split_documents ?e 800 150 (PyPDFLoader_load ?e (lit ''temp_'' @ lit ''a.pdf'') []) = []"
    by (simp add: example_env_def)
  have v: "vectorstore ?st = None" by (simp add: startup_def)
  from detected_failures_responses[of "lit ''notes.txt''" ?e ?st "''x''"] n
  have 1: "upload_pdf ?e ?st (lit ''notes.txt'') ''x''
             = (HTTPException 400 (lit ''Only PDF files are allowed.''), ?st)"
    by blast
  from detected_failures_responses[of "lit ''a.pdf''" ?e ?st "[]"] p o c
  have 2: "fst (upload_pdf ?e ?st (lit ''a.pdf'') [])
             = HTTPException 400 (lit ''No text found in PDF.'')"
    by blast
  from detected_failures_responses[of "lit ''x/a.pdf''" ?e ?st "''Paris''"] x ox
  have 3: "upload_pdf ?e ?st (lit ''x/a.pdf'') ''Paris'' = (Unhandled FileNotFoundError, ?st)"
    by blast
  from detected_failures_responses[of "lit ''a.pdf''" ?e ?st "[]"] v
  have 4: "summarize_pdf ?e ?st = (Return [(lit ''summary'', lit ''Please upload a PDF first.'')], ?st)"
    by blast
  show ?thesis unfolding 1 2 3 4 using n p x v by simp
qed

text \<open>
  Claim C4 as it is written fails: /ask before any upload detects that there is no index
  and answers with status 200, the message in the body; the status is not an error code.
\<close>

theorem detected_failures_responses_counterexample:
  "vectorstore (startup Map.empty :: document list state) = None
   \<and> fst (ask_question (example_env True) (startup Map.empty) (lit ''why''))
       = Return [(lit ''answer'', lit ''Please upload a PDF first.'')]
   \<and> status_code (fst (ask_question (example_env True) (startup Map.empty) (lit ''why''))) = 200
   \<and> \<not> 400 \<le> status_code (fst (ask_question (example_env True) (startup Map.empty) (lit ''why'')))"
  by (simp add: ask_question_def startup_def)

subsection \<open>C5: the generation model is loaded once\<close>

text \<open>
  Claim C5.  When no model is loaded, \<open>load_generation_model\<close> loads the tokenizer and
  the model (the encoder-decoder one or the causal one, as the configuration says),
  records the flag, and stores all three in the globals.  When a model is loaded, it
  returns the globals and changes nothing.  So after any call a model is loaded, and a
  second call returns the same tokenizer, model and flag and leaves the state as it is.
\<close>

theorem load_generation_model_lazy_once:
  "(generation_model st = None \<longrightarrow>
      (let name = HF_GENERATION_MODEL e;
           flag = config_flag (AutoConfig_is_encoder_decoder e name);
           tok = AutoTokenizer_from_pretrained e name;
           m0 = (if flag then AutoModelForSeq2SeqLM_from_pretrained e name
                 else AutoModelForCausalLM_from_pretrained e name);
           m = (if cuda_is_available e then m0\<lparr>model_device := CUDA\<rparr> else m0)
                 \<lparr>training := False\<rparr>
       in load_generation_model e st
            = ((Some tok, m, flag),
               st\<lparr>generation_is_encoder_decoder := flag,
                  generation_tokenizer := Some tok,
                  generation_model := Some m\<rparr>)))
   \<and> (\<forall>m. generation_model st = Some m \<longrightarrow>
         load_generation_model e st
           = ((generation_tokenizer st, m, generation_is_encoder_decoder st), st))
   \<and> (\<forall>r st1. load_generation_model e st = (r, st1) \<longrightarrow>
         generation_model st1 \<noteq> None \<and> load_generation_model e st1 = (r, st1))"
  by (cases "generation_model st") (auto simp: load_generation_model_def Let_def)

text \<open>
  In the example, the first call after start-up loads the encoder-decoder model, and the
  second call gives the same result and the same state.
\<close>

theorem load_generation_model_lazy_once_witness:
  "generation_model (startup Map.empty :: document list state) = None
   \<and> snd (snd (fst (load_generation_model (example_env True) (startup Map.empty))))
   \<and> generation_model (snd (load_generation_model (example_env True) (startup Map.empty))) \<noteq> None
   \<and> load_generation_model (example_env True)
         (snd (load_generation_model (example_env True) (startup Map.empty)))
       = load_generation_model (example_env True) (startup Map.empty)"
proof -
  let ?l = "load_generation_model (example_env True) (startup Map.empty)"
  have n: "generation_model (startup Map.empty :: document list state) = None"
    by (simp add: startup_def)
  have p: "?l = (fst ?l, snd ?l)" by simp
  from load_generation_model_lazy_once[of "startup Map.empty" "example_env True"] p
  have 1: "generation_model (snd ?l) \<noteq> None
           \<and> load_generation_model (example_env True) (snd ?l) = (fst ?l, snd ?l)"
    by blast
  from load_generation_model_lazy_once[of "startup Map.empty" "example_env True"] n
  have 2: "snd (snd (fst ?l))"
    by (simp add: Let_def example_env_def config_flag_def)
  from n 1 2 show ?thesis by simp
qed

subsection \<open>C6: the summarize pipeline\<close>

text \<open>
  Claim C6.  For every /summarize request made when the global index is set: the
  \<open>k = 8\<close> chunks most similar to the query \<open>"Summarize the document"\<close> are retrieved,
  their \<open>page_content\<close> fields are joined with blank lines into a context, the fixed
  summarization prompt is put around the context, the generation model is called once on
  it with \<open>max_new_tokens = 350\<close>, and the decoded, stripped output of that call is
  returned as the summary.  The context and the prompt are written out: \<open>10\<close> is the
  line feed.
\<close>

theorem summarize_pdf_pipeline:
  assumes "vectorstore st = Some vs" and "globals_ok e st"
  shows "\<exists>t m flag st0 out st1.
     (let docs = similarity_search e vs (map of_char ''Summarize the document'') 8;
          context = (case docs of
                       [] \<Rightarrow> []
                     | d # ds \<Rightarrow>
                         page_content d @ concat (map (\<lambda>x. [10, 10] @ page_content x) ds));
          prompt = map of_char ''Summarize the document in 6-8 concise bullet points.''
                   @ [10, 10] @ map of_char ''Context:'' @ [10] @ context @ [10, 10]
                   @ map of_char ''Summary:'';
          enc = tok_call t prompt True 2048;
          generated_ids = generate m enc 350 (pad_or_eos t)
      in load_generation_model e st = ((Some t, m, flag), st0)
       \<and> out = strip (tok_decode t
                 (if flag then generated_ids
                  else drop (length (input_ids enc)) generated_ids) True)
       \<and> generate_response e st prompt 350 = (Inr out, st1)
       \<and> generate_calls st1 = generate_calls st @ [(enc, 350, pad_or_eos t)]
       \<and> summarize_pdf e st = (Return [(map of_char ''summary'', out)], st1))"
proof -
  define docs where "docs = similarity_search e vs (map of_char ''Summarize the document'') 8"
  define ctx where
    "ctx = (case docs of
              [] \<Rightarrow> []
            | d # ds \<Rightarrow> page_content d @ concat (map (\<lambda>x. [10, 10] @ page_content x) ds))"
  define prompt where
    "prompt = map of_char ''Summarize the document in 6-8 concise bullet points.''
              @ [10, 10] @ map of_char ''Context:'' @ [10] @ ctx @ [10, 10]
              @ map of_char ''Summary:''"
  have j: "join (NL @ NL) (map page_content docs) = ctx"
    unfolding ctx_def by (rule join_blank_lines)
  have p: "summarize_prompt ctx = prompt"
    unfolding prompt_def by (rule summarize_prompt_text)
  from generate_response_ok[OF assms(2), of prompt 350] obtain t m st0 out st1 where
    l: "load_generation_model e st
        = ((Some t, m, config_flag (AutoConfig_is_encoder_decoder e (HF_GENERATION_MODEL e))), st0)"
    and g: "generate_response e st prompt 350 = (Inr out, st1)"
    and o: "out = strip (tok_decode t
               (if config_flag (AutoConfig_is_encoder_decoder e (HF_GENERATION_MODEL e))
                then generate m (tok_call t prompt True 2048) 350 (pad_or_eos t)
                else drop (length (input_ids (tok_call t prompt True 2048)))
                       (generate m (tok_call t prompt True 2048) 350 (pad_or_eos t))) True)"
    and c: "st1 = st0\<lparr>generate_calls :=
                        generate_calls st @ [(tok_call t prompt True 2048, 350, pad_or_eos t)]\<rparr>"
    by blast
  have d: "similarity_search e vs (lit ''Summarize the document'') 8 = docs"
    unfolding docs_def by (simp only: lit_def)
  have a: "summarize_pdf e st = (Return [(map of_char ''summary'', out)], st1)"
    using assms(1) g
    by (simp add: summarize_pdf_def Let_def d j p) (simp add: lit_def)
  have c': "generate_calls st1
              = generate_calls st @ [(tok_call t prompt True 2048, 350, pad_or_eos t)]"
    using c by simp
  show ?thesis
    apply (rule exI[of _ t], rule exI[of _ m])
    apply (rule exI[of _ "config_flag (AutoConfig_is_encoder_decoder e (HF_GENERATION_MODEL e))"])
    apply (rule exI[of _ st0], rule exI[of _ out], rule exI[of _ st1])
    unfolding Let_def docs_def[symmetric] ctx_def[symmetric] prompt_def[symmetric]
    using l g o c' a by (intro conjI) simp_all
qed

text \<open>
  In the example the index holds the chunks \<open>"Paris"\<close> and \<open>"Rome"\<close> and the model returns
  its input followed by \<open>"OK"\<close>, so the summary is the prompt followed by \<open>"OK"\<close>: the
  instruction, a blank line, \<open>"Context:"\<close>, the two chunks with a blank line between
  them, a blank line, \<open>"Summary:"\<close>.
\<close>

theorem summarize_pdf_pipeline_witness:
  "vectorstore (example_state (''Paris'' @ [CHR 0x0C] @ ''Rome'')) \<noteq> None
   \<and> fst (summarize_pdf echo_env (example_state (''Paris'' @ [CHR 0x0C] @ ''Rome'')))
       = Return [(map of_char ''summary'',
            map of_char ''Summarize the document in 6-8 concise bullet points.''
            @ [10, 10] @ map of_char ''Context:'' @ [10] @ map of_char ''Paris'' @ [10, 10]
            @ map of_char ''Rome'' @ [10, 10] @ map of_char ''Summary:OK'')]"
proof -
  let ?d = "\<lparr> page_content = lit ''Paris'', metadata = [(lit ''source'', lit ''temp_a.pdf'')] \<rparr>"
  let ?d' = "\<lparr> page_content = lit ''Rome'', metadata = [(lit ''source'', lit ''temp_a.pdf'')] \<rparr>"
  let ?st = "example_state (''Paris'' @ [CHR 0x0C] @ ''Rome'')"
  let ?p = "map of_char ''Summarize the document in 6-8 concise bullet points.''
            @ [10, 10] @ map of_char ''Context:'' @ [10]
            @ (page_content ?d @ concat (map (\<lambda>x. [10, 10] @ page_content x) [?d']))
            @ [10, 10] @ map of_char ''Summary:''"
  have v: "vectorstore ?st = Some [?d, ?d']"
    by (rule example_state_two_pages)
  have g: "globals_ok echo_env ?st"
    by (rule echo_env_globals_ok)
  have s: "similarity_search echo_env [?d, ?d'] (map of_char ''Summarize the document'') 8
             = [?d, ?d']"
    using echo_env_retrieval(2) by (simp only: lit_def)
  from summarize_pdf_pipeline[OF v g] obtain t m flag st0 out st1 where
    l: "load_generation_model echo_env ?st = ((Some t, m, flag), st0)"
    and o: "out = strip (tok_decode t
              (if flag then generate m (tok_call t ?p True 2048) 350 (pad_or_eos t)
               else drop (length (input_ids (tok_call t ?p True 2048)))
                      (generate m (tok_call t ?p True 2048) 350 (pad_or_eos t))) True)"
    and a: "summarize_pdf echo_env ?st = (Return [(map of_char ''summary'', out)], st1)"
    unfolding Let_def s list.case by blast
  from echo_env_load[OF l] have t: "t = example_tokenizer"
    and m: "m = example_causal\<lparr>training := False\<rparr>" and f: "flag"
    by simp_all
  have o': "out = map of_char ''Summarize the document in 6-8 concise bullet points.''
            @ [10, 10] @ map of_char ''Context:'' @ [10] @ map of_char ''Paris'' @ [10, 10]
            @ map of_char ''Rome'' @ [10, 10] @ map of_char ''Summary:OK''"
    unfolding o t m using f
    by (simp add: example_tokenizer_def example_causal_def pad_or_eos_def lit_def whitespace_defs)
  show ?thesis unfolding a o' using v by simp
qed

subsection \<open>C7: the index lives in memory only\<close>

text \<open>
  Claim C7.  At start-up the global \<open>vectorstore\<close> is \<open>None\<close>.  After any list of requests
  it is still \<open>None\<close> exactly when no /upload among them succeeded.  The files the service
  leaves behind are the files that were there and the uploaded bytes, stored under \<open>temp_\<close>
  and the file name where that path could be opened: no index is written.  So a start-up
  on the files of an earlier run has no index, and /ask and /summarize say so, whatever
  was indexed before.
\<close>

theorem index_memory_resident:
  assumes "serve (e :: 'ix env) (startup fs) rs = (resps, st')"
  shows "vectorstore (startup fs :: 'ix state) = None
       \<and> (vectorstore st' = None \<longleftrightarrow> \<not> (\<exists>p \<in> set (zip rs resps). upload_succeeded p))
       \<and> files st' = written_by (open_wb e) rs fs
       \<and> (\<forall>path b. files st' path = Some b \<longrightarrow>
             fs path = Some b
           \<or> (\<exists>filename. Upload filename b \<in> set rs \<and> path = lit ''temp_'' @ filename))
       \<and> vectorstore (startup (files st') :: 'ix state) = None
       \<and> (\<forall>question. fst (ask_question e (startup (files st')) question)
             = Return [(lit ''answer'', lit ''Please upload a PDF first.'')])
       \<and> fst (summarize_pdf e (startup (files st')))
             = Return [(lit ''summary'', lit ''Please upload a PDF first.'')]"
proof -
  from serve_index[OF assms] have
    i: "vectorstore st' = None \<longleftrightarrow> \<not> (\<exists>p \<in> set (zip rs resps). upload_succeeded p)"
    and f: "files st' = written_by (open_wb e) rs fs"
    by (simp_all add: startup_def)
  have o: "\<forall>path b. files st' path = Some b \<longrightarrow>
             fs path = Some b
           \<or> (\<exists>filename. Upload filename b \<in> set rs \<and> path = lit ''temp_'' @ filename)"
    unfolding f using written_by_origin by blast
  have n: "vectorstore (startup g :: 'ix state) = None" for g
    by (simp add: startup_def)
  have a: "fst (ask_question e (startup g) question)
             = Return [(lit ''answer'', lit ''Please upload a PDF first.'')]" for g question
    by (simp add: ask_question_def n)
  have s: "fst (summarize_pdf e (startup g))
             = Return [(lit ''summary'', lit ''Please upload a PDF first.'')]" for g
    by (simp add: summarize_pdf_def n)
  show ?thesis
    using i f o by (simp add: n a s)
qed

text \<open>
  In the example: a question, a refused \<open>notes.txt\<close>, \<open>x/a.pdf\<close> that cannot be stored and
  then \<open>a.pdf\<close>, which is indexed.  The run leaves the index set and one file,
  \<open>temp_a.pdf\<close>.  A start-up on that file has no index, and /ask asks for an upload.
\<close>

theorem index_memory_resident_witness:
  "fst (serve (example_env True) (startup Map.empty)
       [Ask (lit ''why''), Upload (lit ''notes.txt'') ''x'',
        Upload (lit ''x/a.pdf'') ''Paris'', Upload (lit ''a.pdf'') ''Paris''])
     = [Return [(lit ''answer'', lit ''Please upload a PDF first.'')],
        HTTPException 400 (lit ''Only PDF files are allowed.''),
        Unhandled FileNotFoundError,
        Return [(lit ''doc_id'', lit ''a.pdf'')]]
   \<and> vectorstore (snd (serve (example_env True) (startup Map.empty)
       [Ask (lit ''why''), Upload (lit ''notes.txt'') ''x'',
        Upload (lit ''x/a.pdf'') ''Paris'', Upload (lit ''a.pdf'') ''Paris''])) \<noteq> None
   \<and> files (snd (serve (example_env True) (startup Map.empty)
       [Ask (lit ''why''), Upload (lit ''notes.txt'') ''x'',
        Upload (lit ''x/a.pdf'') ''Paris'', Upload (lit ''a.pdf'') ''Paris'']))
       = [lit ''temp_a.pdf'' \<mapsto> ''Paris'']
   \<and> vectorstore (startup [lit ''temp_a.pdf'' \<mapsto> ''Paris''] :: document list state) = None
   \<and> fst (ask_question (example_env True) (startup [lit ''temp_a.pdf'' \<mapsto> ''Paris''])
            (lit ''is it Paris?''))
       = Return [(lit ''answer'', lit ''Please upload a PDF first.'')]"
proof -
  let ?e = "example_env True"
  let ?rs = "[Ask (lit ''why''), Upload (lit ''notes.txt'') ''x'',
              Upload (lit ''x/a.pdf'') ''Paris'', Upload (lit ''a.pdf'') ''Paris'']"
  let ?s = "serve ?e (startup Map.empty) ?rs"
  have p: "?s = (fst ?s, snd ?s)" by simp
  have n: "\<not> endswith (lit ''notes.txt'') (lit ''.pdf'')"
    and x: "endswith (lit ''x/a.pdf'') (lit ''.pdf'')"
    and a: "endswith (lit ''a.pdf'') (lit ''.pdf'')"
    by (simp_all add: endswith_def lit_def)
  have o: "open_wb ?e (lit ''temp_'' @ lit ''a.pdf'') = None"
    and ox: "open_wb ?e (lit ''temp_'' @ lit ''x/a.pdf'') = Some FileNotFoundError"
    by (simp_all add: example_env_def lit_def)
  have c: "split_documents ?e 800 150 (PyPDFLoader_load ?e (lit ''temp_'' @ lit ''a.pdf'') ''Paris'')
             \<noteq> []"
    by (simp add: example_env_def)
  have r: "fst ?s = [Return [(lit ''answer'', lit ''Please upload a PDF first.'')],
                     HTTPException 400 (lit ''Only PDF files are allowed.''),
                     Unhandled FileNotFoundError,
                     Return [(lit ''doc_id'', lit ''a.pdf'')]]"
    using n x a o ox c
    by (simp add: example_AskRequest ask_question_def upload_pdf_def startup_def split_def Let_def)
  have w: "written_by (open_wb ?e) ?rs Map.empty = [lit ''temp_a.pdf'' \<mapsto> ''Paris'']"
    using n x a o ox by (simp add: written_by_def) (simp add: lit_def)
  from index_memory_resident[OF p]
  have 1: "vectorstore (snd ?s) = None \<longleftrightarrow> \<not> (\<exists>p \<in> set (zip ?rs (fst ?s)). upload_succeeded p)"
    and 2: "files (snd ?s) = written_by (open_wb ?e) ?rs Map.empty"
    and 3: "vectorstore (startup (files (snd ?s)) :: document list state) = None"
    and 4: "fst (ask_question ?e (startup (files (snd ?s))) (lit ''is it Paris?''))
              = Return [(lit ''answer'', lit ''Please upload a PDF first.'')]"
    by blast+
  have 5: "vectorstore (snd ?s) \<noteq> None"
    using 1 unfolding r by simp
  show ?thesis
    using r 5 2 3 4 unfolding w by simp
qed

subsection \<open>C8: a refused upload leaves the index alone\<close>

text \<open>
  Claim C8.  When /upload fails with status 400, the global \<open>vectorstore\<close> is what it was
  before the request, and /ask and /summarize answer afterwards as they would have
  answered before.
\<close>

theorem upload_failure_keeps_index:
  assumes "upload_pdf e st filename content = (HTTPException 400 detail, st')"
  shows "vectorstore st' = vectorstore st
       \<and> (\<forall>question. fst (ask_question e st' question) = fst (ask_question e st question))
       \<and> fst (summarize_pdf e st') = fst (summarize_pdf e st)"
  using upload_400_state[OF assms]
  by (auto simp: ask_question_files summarize_pdf_files)

text \<open>
  In the example, an empty \<open>b.pdf\<close> is refused after \<open>"Paris"\<close> was indexed: the file is
  stored, the index still holds \<open>"Paris"\<close>.
\<close>

theorem upload_failure_keeps_index_witness:
  "fst (upload_pdf (example_env True) (example_state ''Paris'') (lit ''b.pdf'') '''')
     = HTTPException 400 (lit ''No text found in PDF.'')
   \<and> vectorstore (snd (upload_pdf (example_env True) (example_state ''Paris'') (lit ''b.pdf'') ''''))
       = vectorstore (example_state ''Paris'')
   \<and> fst (summarize_pdf (example_env True)
            (snd (upload_pdf (example_env True) (example_state ''Paris'') (lit ''b.pdf'') '''')))
       = fst (summarize_pdf (example_env True) (example_state ''Paris''))"
proof -
  let ?u = "upload_pdf (example_env True) (example_state ''Paris'') (lit ''b.pdf'') ''''"
  have f: "fst ?u = HTTPException 400 (lit ''No text found in PDF.'')"
    by (simp add: upload_pdf_def example_env_def endswith_def lit_def Let_def)
  then have p: "?u = (HTTPException 400 (lit ''No text found in PDF.''), snd ?u)"
    by (metis prod.collapse)
  from upload_failure_keeps_index[OF p] f show ?thesis by blast
qed

subsection \<open>C9: empty retrieval\<close>

text \<open>
  Claim C9.  For an /ask request made when the global index is set: when the similarity
  search returns no document, the response is \<open>{"answer": "Not found in document."}\<close> and
  the state is unchanged, so no prompt reached the model and no call was recorded.
  /summarize has no such check: when its search returns no document it still calls the
  model, on the prompt with the empty context, and returns the output.
\<close>

theorem ask_empty_retrieval:
  assumes "vectorstore st = Some vs"
  shows "(similarity_search e vs (strip question) 6 = [] \<longrightarrow>
            ask_question e st question
              = (Return [(lit ''answer'', lit ''Not found in document.'')], st))
       \<and> (similarity_search e vs (lit ''Summarize the document'') 8 = [] \<and> globals_ok e st \<longrightarrow>
            (\<exists>t out st1.
                generate_response e st (summarize_prompt []) 350 = (Inr out, st1)
              \<and> generate_calls st1
                  = generate_calls st @ [(tok_call t (summarize_prompt []) True 2048, 350, pad_or_eos t)]
              \<and> summarize_pdf e st = (Return [(lit ''summary'', out)], st1)))"
proof (intro conjI impI)
  assume "similarity_search e vs (strip question) 6 = []"
  then show "ask_question e st question
              = (Return [(lit ''answer'', lit ''Not found in document.'')], st)"
    using assms by (simp add: ask_question_def)
next
  assume a: "similarity_search e vs (lit ''Summarize the document'') 8 = [] \<and> globals_ok e st"
  from generate_response_ok[of e st "summarize_prompt []" 350] a obtain t m st0 out st1 where
    g: "generate_response e st (summarize_prompt []) 350 = (Inr out, st1)"
    and c: "st1 = st0\<lparr>generate_calls :=
              generate_calls st @ [(tok_call t (summarize_prompt []) True 2048, 350, pad_or_eos t)]\<rparr>"
    by blast
  have s: "summarize_pdf e st = (Return [(lit ''summary'', out)], st1)"
    using assms a g by (simp add: summarize_pdf_def Let_def)
  show "\<exists>t out st1.
          generate_response e st (summarize_prompt []) 350 = (Inr out, st1)
        \<and> generate_calls st1
            = generate_calls st @ [(tok_call t (summarize_prompt []) True 2048, 350, pad_or_eos t)]
        \<and> summarize_pdf e st = (Return [(lit ''summary'', out)], st1)"
    apply (rule exI[of _ t], rule exI[of _ out], rule exI[of _ st1])
    using g c s by simp
qed

text \<open>
  In the example the index holds \<open>"42"\<close>: the question \<open>"why"\<close> retrieves nothing and no
  call is recorded; /summarize retrieves nothing either and records one call.
\<close>

theorem ask_empty_retrieval_witness:
  "vectorstore (example_state ''42'') \<noteq> None
   \<and> ask_question (example_env True) (example_state ''42'') (lit ''why'')
       = (Return [(lit ''answer'', lit ''Not found in document.'')], example_state ''42'')
   \<and> generate_calls (example_state ''42'') = []
   \<and> length (generate_calls (snd (summarize_pdf (example_env True) (example_state ''42'')))) = 1"
proof -
  let ?d = "\<lparr> page_content = lit ''42'', metadata = [(lit ''source'', lit ''temp_a.pdf'')] \<rparr>"
  let ?e = "example_env True"
  have v: "vectorstore (example_state ''42'') = Some [?d]"
    by (rule example_state_42)
  have 1: "similarity_search ?e [?d] (strip (lit ''why'')) 6 = []"
    by (simp add: example_env_def lit_def whitespace_defs)
  have 2: "similarity_search ?e [?d] (lit ''Summarize the document'') 8 = []
           \<and> globals_ok ?e (example_state ''42'')"
    by (simp add: example_retrieval example_state_globals_ok)
  have c: "generate_calls (example_state ''42'') = []"
    by (simp add: example_defs)
  from ask_empty_retrieval[OF v, of ?e "lit ''why''"] 1
  have a: "ask_question ?e (example_state ''42'') (lit ''why'')
             = (Return [(lit ''answer'', lit ''Not found in document.'')], example_state ''42'')"
    by blast
  from ask_empty_retrieval[OF v, of ?e "lit ''why''"] 2 obtain t out st1 where
    g: "generate_calls st1 = generate_calls (example_state ''42'')
           @ [(tok_call t (summarize_prompt []) True 2048, 350, pad_or_eos t)]"
    and s: "summarize_pdf ?e (example_state ''42'') = (Return [(lit ''summary'', out)], st1)"
    by blast
  show ?thesis unfolding a s using v c g by simp
qed

subsection \<open>C10: the answer is whitespace-normalized\<close>

text \<open>
  Claim C10.  For every /ask response produced by generation, the answer holds no run of
  two or more consecutive whitespace characters and neither starts nor ends with
  whitespace.  It is the output of \<open>generate_response\<close> with every maximal run of two or
  more whitespace characters replaced by one space, stripped; the characters that are not
  whitespace are those of the output, in their order.
\<close>

theorem ask_answer_normalized:
  assumes "vectorstore st = Some vs"
    and "similarity_search e vs (strip question) 6 \<noteq> []"
    and "ask_question e st question = (Return body, st')"
  shows "\<exists>out a.
      fst (generate_response e st
             (ask_prompt (join (NL @ NL)
                (map page_content (similarity_search e vs (strip question) 6))) (strip question))
             300) = Inr out
    \<and> body = [(lit ''answer'', a)]
    \<and> \<not> has_ws_run a
    \<and> (a \<noteq> [] \<longrightarrow> \<not> isspace (hd a) \<and> \<not> isspace (last a))
    \<and> filter (\<lambda>c. \<not> isspace c) a = filter (\<lambda>c. \<not> isspace c) out
    \<and> a = strip (re_sub_ws2 SPACE out)
    \<and> (\<forall>u run v. out = u @ run @ v
          \<and> (u = [] \<or> \<not> isspace (last u)) \<and> (v = [] \<or> \<not> isspace (hd v))
          \<and> (\<forall>c \<in> set run. isspace c) \<and> 2 \<le> length run
        \<longrightarrow> re_sub_ws2 SPACE out = re_sub_ws2 SPACE u @ SPACE @ re_sub_ws2 SPACE v)"
proof -
  define prompt where
    "prompt = ask_prompt (join (NL @ NL)
                (map page_content (similarity_search e vs (strip question) 6))) (strip question)"
  obtain r st1 where g: "generate_response e st prompt 300 = (r, st1)"
    by (cases "generate_response e st prompt 300")
  from assms g obtain out where r: "r = Inr out"
    and b: "body = [(lit ''answer'', strip (re_sub_ws2 SPACE out))]"
    by (cases r) (auto simp: ask_question_def Let_def prompt_def)
  have n: "\<not> has_ws_run (strip (re_sub_ws2 SPACE out))"
    using has_ws_run_strip re_sub_no_run by blast
  have f: "filter (\<lambda>c. \<not> isspace c) (strip (re_sub_ws2 SPACE out))
             = filter (\<lambda>c. \<not> isspace c) out"
    by (simp only: filter_strip filter_re_sub)
  have c: "\<forall>u run v. out = u @ run @ v
          \<and> (u = [] \<or> \<not> isspace (last u)) \<and> (v = [] \<or> \<not> isspace (hd v))
          \<and> (\<forall>c \<in> set run. isspace c) \<and> 2 \<le> length run
        \<longrightarrow> re_sub_ws2 SPACE out = re_sub_ws2 SPACE u @ SPACE @ re_sub_ws2 SPACE v"
    using re_sub_ws2_run by blast
  show ?thesis
    apply (rule exI[of _ out], rule exI[of _ "strip (re_sub_ws2 SPACE out)"])
    apply (intro conjI)
    using g r apply (simp add: prompt_def)
    using b apply simp
    using n apply simp
    using strip_ends[of "re_sub_ws2 SPACE out"] apply blast
    using f apply simp
     apply (rule refl)
    using c apply blast
    done
qed

text \<open>
  In the example the model's output \<open>" Hi  \n! "\<close> comes back as \<open>"Hi !"\<close>.
\<close>

theorem ask_answer_normalized_witness:
  "vectorstore (example_state ''Paris'') \<noteq> None
   \<and> (\<exists>a. fst (ask_question (example_env True) (example_state ''Paris'') (lit '' is it Paris? ''))
            = Return [(lit ''answer'', a)]
        \<and> a = lit ''Hi !'' \<and> \<not> has_ws_run a)"
proof -
  let ?d = "\<lparr> page_content = lit ''Paris'', metadata = [(lit ''source'', lit ''temp_a.pdf'')] \<rparr>"
  let ?q = "lit '' is it Paris? ''"
  let ?e = "example_env True"
  let ?p = "ask_prompt (join (NL @ NL)
              (map page_content (similarity_search ?e [?d] (strip ?q) 6))) (strip ?q)"
  let ?a = "ask_question ?e (example_state ''Paris'') ?q"
  have v: "vectorstore (example_state ''Paris'') = Some [?d]"
    by (rule example_state_Paris)
  have s: "similarity_search ?e [?d] (strip ?q) 6 \<noteq> []"
    by (simp add: example_strip example_retrieval)
  have f: "fst ?a = Return [(lit ''answer'', lit ''Hi !'')]"
    by (simp add: ask_question_def example_state_Paris example_strip example_retrieval
          example_generate_seq2seq example_normalize Let_def split_def
          del: re_sub_ws2.simps)
  then have p: "?a = (Return [(lit ''answer'', lit ''Hi !'')], snd ?a)"
    by (metis prod.collapse)
  from ask_answer_normalized[OF v s p] have "\<not> has_ws_run (lit ''Hi !'')"
    by blast
  with f v show ?thesis by simp
qed

end
